theory Spec2Isabelle
  imports Main
begin

section \<open>Characters and Python string operations\<close>

text \<open>
  A Python \<open>str\<close> is modelled as a \<^typ>\<open>string\<close>, one \<^typ>\<open>char\<close> per code point below 256
  (ASCII and the Latin-1 supplement). The character classes are those of Python on these
  code points: \<open>\s\<close>, \<open>str.isspace\<close>, \<open>str.strip()\<close> and \<open>str.split()\<close> share one notion
  of whitespace, \<open>\d\<close> is \<open>0-9\<close>, and \<open>\w\<close> is \<open>str.isalnum\<close> or the underscore.
\<close>

definition is_digit :: "char \<Rightarrow> bool" where
  "is_digit c = (48 \<le> (of_char c :: nat) \<and> (of_char c :: nat) \<le> 57)"

text \<open>Upper case: \<open>A-Z\<close> and \<open>0xC0-0xDE\<close> without the multiplication sign \<open>0xD7\<close>.\<close>

definition is_upper :: "char \<Rightarrow> bool" where
  "is_upper c = ((65 \<le> (of_char c :: nat) \<and> (of_char c :: nat) \<le> 90) \<or>
                 (192 \<le> (of_char c :: nat) \<and> (of_char c :: nat) \<le> 222 \<and> (of_char c :: nat) \<noteq> 215))"

text \<open>Lower case: \<open>a-z\<close>, the ordinal indicators \<open>0xAA\<close> and \<open>0xBA\<close>, the micro sign
  \<open>0xB5\<close>, and \<open>0xDF-0xFF\<close> without the division sign \<open>0xF7\<close>.\<close>

definition is_lower :: "char \<Rightarrow> bool" where
  "is_lower c = ((97 \<le> (of_char c :: nat) \<and> (of_char c :: nat) \<le> 122) \<or>
                 (of_char c :: nat) = 170 \<or> (of_char c :: nat) = 181 \<or> (of_char c :: nat) = 186 \<or>
                 (223 \<le> (of_char c :: nat) \<and> (of_char c :: nat) \<noteq> 247))"

text \<open>Whitespace: tab, newline, vertical tab, form feed, carriage return, the four
  separators \<open>0x1C\<close> to \<open>0x1F\<close>, the space, the next-line control \<open>0x85\<close> and the no-break
  space \<open>0xA0\<close>.\<close>

definition is_space :: "char \<Rightarrow> bool" where
  "is_space c = ((9 \<le> (of_char c :: nat) \<and> (of_char c :: nat) \<le> 13) \<or>
                 (28 \<le> (of_char c :: nat) \<and> (of_char c :: nat) \<le> 32) \<or>
                 (of_char c :: nat) = 133 \<or> (of_char c :: nat) = 160)"

text \<open>Word characters: the digits, the letters, the underscore, and the superscript digits
  and fractions \<open>0xB2\<close>, \<open>0xB3\<close>, \<open>0xB9\<close>, \<open>0xBC\<close>, \<open>0xBD\<close>, \<open>0xBE\<close>.\<close>

definition is_word :: "char \<Rightarrow> bool" where
  "is_word c = (is_digit c \<or> is_upper c \<or> is_lower c \<or> c = CHR ''_'' \<or>
                (of_char c :: nat) \<in> {178, 179, 185, 188, 189, 190})"

text \<open>An upper-case letter and its lower-case letter differ in bit 5 (the value 32).
  \<open>has_capital\<close> holds for the lower-case letters whose capital is a code point below 256:
  the capitals of \<open>0xB5\<close>, \<open>0xDF\<close> and \<open>0xFF\<close> lie outside this range, and \<open>upper_char\<close>
  leaves these three unchanged.\<close>

definition has_capital :: "char \<Rightarrow> bool" where
  "has_capital c = ((97 \<le> (of_char c :: nat) \<and> (of_char c :: nat) \<le> 122) \<or>
                    (224 \<le> (of_char c :: nat) \<and> (of_char c :: nat) \<le> 254 \<and> (of_char c :: nat) \<noteq> 247))"

fun lower_char :: "char \<Rightarrow> char" where
  "lower_char (Char b0 b1 b2 b3 b4 b5 b6 b7) =
     (if is_upper (Char b0 b1 b2 b3 b4 b5 b6 b7) then Char b0 b1 b2 b3 b4 True b6 b7
      else Char b0 b1 b2 b3 b4 b5 b6 b7)"

fun upper_char :: "char \<Rightarrow> char" where
  "upper_char (Char b0 b1 b2 b3 b4 b5 b6 b7) =
     (if has_capital (Char b0 b1 b2 b3 b4 b5 b6 b7) then Char b0 b1 b2 b3 b4 False b6 b7
      else Char b0 b1 b2 b3 b4 b5 b6 b7)"

text \<open>\<open>str.lower()\<close>.\<close>

definition lower :: "string \<Rightarrow> string" where
  "lower s = map lower_char s"

text \<open>\<open>str.title()\<close>: a letter that follows a letter is lower-cased, any other letter is
  upper-cased.\<close>

fun title_from :: "bool \<Rightarrow> string \<Rightarrow> string" where
  "title_from cased [] = []"
| "title_from cased (c # cs) =
     (if is_upper c \<or> is_lower c
      then (if cased then lower_char c else upper_char c) # title_from True cs
      else c # title_from False cs)"

definition title :: "string \<Rightarrow> string" where
  "title s = title_from False s"

text \<open>\<open>str.strip()\<close> and \<open>str.strip(chars)\<close>.\<close>

definition strip_with :: "(char \<Rightarrow> bool) \<Rightarrow> string \<Rightarrow> string" where
  "strip_with P s = rev (dropWhile P (rev (dropWhile P s)))"

definition strip :: "string \<Rightarrow> string" where
  "strip s = strip_with is_space s"

text \<open>\<open>string.punctuation\<close>.\<close>

definition punctuation :: string where
  "punctuation = [CHR 0x21, CHR 0x22, CHR 0x23, CHR 0x24, CHR 0x25, CHR 0x26, CHR 0x27,
     CHR 0x28, CHR 0x29, CHR 0x2A, CHR 0x2B, CHR 0x2C, CHR 0x2D, CHR 0x2E, CHR 0x2F,
     CHR 0x3A, CHR 0x3B, CHR 0x3C, CHR 0x3D, CHR 0x3E, CHR 0x3F, CHR 0x40,
     CHR 0x5B, CHR 0x5C, CHR 0x5D, CHR 0x5E, CHR 0x5F, CHR 0x60,
     CHR 0x7B, CHR 0x7C, CHR 0x7D, CHR 0x7E]"

text \<open>\<open>str.split()\<close> with no argument: the maximal runs of non-whitespace.\<close>

fun words_from :: "string \<Rightarrow> string \<Rightarrow> string list" where
  "words_from w [] = (if w = [] then [] else [rev w])"
| "words_from w (c # cs) =
     (if is_space c then (if w = [] then words_from [] cs else rev w # words_from [] cs)
      else words_from (c # w) cs)"

definition split_ws :: "string \<Rightarrow> string list" where
  "split_ws s = words_from [] s"

text \<open>\<open>str.split(sep)\<close> for a separator of one character: empty pieces are kept.\<close>

fun pieces_from :: "char \<Rightarrow> string \<Rightarrow> string \<Rightarrow> string list" where
  "pieces_from sep w [] = [rev w]"
| "pieces_from sep w (c # cs) =
     (if c = sep then rev w # pieces_from sep [] cs else pieces_from sep (c # w) cs)"

definition split_char :: "char \<Rightarrow> string \<Rightarrow> string list" where
  "split_char sep s = pieces_from sep [] s"

text \<open>\<open>sep.join(xs)\<close>.\<close>

fun join :: "string \<Rightarrow> string list \<Rightarrow> string" where
  "join sep [] = []"
| "join sep [x] = x"
| "join sep (x # y # ys) = x @ sep @ join sep (y # ys)"

text \<open>\<open>sub in s\<close> for strings, and \<open>s.endswith(c)\<close> for one character.\<close>

fun starts_with :: "string \<Rightarrow> string \<Rightarrow> bool" where
  "starts_with [] s = True"
| "starts_with (c # cs) [] = False"
| "starts_with (c # cs) (x # xs) = (c = x \<and> starts_with cs xs)"

fun contains :: "string \<Rightarrow> string \<Rightarrow> bool" where
  "contains sub [] = (sub = [])"
| "contains sub (x # xs) = (starts_with sub (x # xs) \<or> contains sub xs)"

fun ends_with_char :: "char \<Rightarrow> string \<Rightarrow> bool" where
  "ends_with_char c [] = False"
| "ends_with_char c [x] = (x = c)"
| "ends_with_char c (x # y # ys) = ends_with_char c (y # ys)"

section \<open>Regular expressions: the backtracking matcher of Python's \<open>re\<close>\<close>

text \<open>
  The patterns of the repository use literals (case-sensitive or, under \<open>re.IGNORECASE\<close>,
  compared after lower-casing), character sets built from \<open>\d\<close>, \<open>\w\<close>, \<open>\s\<close> and listed
  characters, sequence, alternation, greedy and lazy repetition, \<open>?\<close>, one capturing group,
  \<open>\b\<close>, \<open>$\<close> and a lookahead. \<open>Open\<close> and \<open>Close\<close> are the two marks of the capturing
  group.
\<close>

datatype cls = Digit | Word | Space | Chars string

fun cls_mem :: "cls \<Rightarrow> char \<Rightarrow> bool" where
  "cls_mem Digit c = is_digit c"
| "cls_mem Word c = is_word c"
| "cls_mem Space c = is_space c"
| "cls_mem (Chars cs) c = (c \<in> set cs)"

fun cls_any :: "cls list \<Rightarrow> char \<Rightarrow> bool" where
  "cls_any [] c = False"
| "cls_any (k # ks) c = (cls_mem k c \<or> cls_any ks c)"

datatype re =
    Lit char | LitI char | Set "cls list" | NSet "cls list"
  | Seq re re | Alt re re | Star re | LStar re | Opt re
  | Open | Close | Bnd | Eos | Ahead re | Eps

text \<open>
  A matcher state: the text matched so far (reversed), the text of the closed group, the
  text of the group that is open (reversed), the character before the position, and the
  text from the position on.
\<close>

type_synonym mstate = "string \<times> string option \<times> string option \<times> char option \<times> string"

fun matched :: "mstate \<Rightarrow> string" where "matched (m, g, a, p, s) = m"
fun group1 :: "mstate \<Rightarrow> string option" where "group1 (m, g, a, p, s) = g"
fun before :: "mstate \<Rightarrow> char option" where "before (m, g, a, p, s) = p"
fun rest :: "mstate \<Rightarrow> string" where "rest (m, g, a, p, s) = s"

fun word_before :: "char option \<Rightarrow> bool" where
  "word_before None = False"
| "word_before (Some c) = is_word c"

fun word_after :: "string \<Rightarrow> bool" where
  "word_after [] = False"
| "word_after (c # cs) = is_word c"

fun step1 :: "(char \<Rightarrow> bool) \<Rightarrow> mstate \<Rightarrow> mstate list" where
  "step1 P (m, g, a, p, []) = []"
| "step1 P (m, g, a, p, x # xs) =
     (if P x then [(x # m, g, map_option (Cons x) a, Some x, xs)] else [])"

text \<open>
  \<open>ms r st\<close> lists every way \<open>r\<close> can match at \<open>st\<close>, in the order in which the
  backtracking matcher tries them: the first element is the match it returns. A repetition
  stops at an iteration that consumes nothing. \<open>$\<close> is the end of the text or the place
  before a final newline (no \<open>re.MULTILINE\<close>).
\<close>

function ms :: "re \<Rightarrow> mstate \<Rightarrow> mstate list" where
  "ms Eps st = [st]"
| "ms (Lit c) st = step1 (\<lambda>x. x = c) st"
| "ms (LitI c) st = step1 (\<lambda>x. lower_char x = lower_char c) st"
| "ms (Set cs) st = step1 (cls_any cs) st"
| "ms (NSet cs) st = step1 (\<lambda>x. \<not> cls_any cs x) st"
| "ms (Seq r1 r2) st = concat (map (ms r2) (ms r1 st))"
| "ms (Alt r1 r2) st = ms r1 st @ ms r2 st"
| "ms (Star r) st =
     concat (map (\<lambda>st'. if length (rest st') < length (rest st) then ms (Star r) st' else [])
                 (ms r st)) @ [st]"
| "ms (LStar r) st =
     st # concat (map (\<lambda>st'. if length (rest st') < length (rest st) then ms (LStar r) st' else [])
                      (ms r st))"
| "ms (Opt r) st = ms r st @ [st]"
| "ms Open (m, g, a, p, s) = [(m, g, Some [], p, s)]"
| "ms Close (m, g, a, p, s) = [(m, (case a of None \<Rightarrow> g | Some cs \<Rightarrow> Some (rev cs)), None, p, s)]"
| "ms Bnd (m, g, a, p, s) = (if word_before p \<noteq> word_after s then [(m, g, a, p, s)] else [])"
| "ms Eos (m, g, a, p, s) = (if s = [] \<or> s = [CHR 0x0A] then [(m, g, a, p, s)] else [])"
| "ms (Ahead r) st = (if ms r st = [] then [] else [st])"
  by pat_completeness auto
termination
  by (relation "measure size <*lex*> measure (\<lambda>st. length (rest st))") auto

fun first :: "'a list \<Rightarrow> 'a option" where
  "first [] = None"
| "first (x # xs) = Some x"

text \<open>Pattern syntax: a literal string, a sequence, \<open>r+\<close>, \<open>(r)\<close>, \<open>r{n}\<close>, an alternation
  of several patterns, and the flag \<open>re.IGNORECASE\<close>.\<close>

fun seqs :: "re list \<Rightarrow> re" where
  "seqs [] = Eps"
| "seqs (r # rs) = Seq r (seqs rs)"

definition lit :: "string \<Rightarrow> re list" where
  "lit cs = map Lit cs"

definition Plus :: "re \<Rightarrow> re" where
  "Plus r = Seq r (Star r)"

definition Grp :: "re \<Rightarrow> re" where
  "Grp r = Seq Open (Seq r Close)"

text \<open>\<open>[...]+\<close> as a whole pattern.\<close>

definition run_of :: "cls list \<Rightarrow> re" where
  "run_of cs = seqs [Plus (Set cs)]"

definition times :: "nat \<Rightarrow> re \<Rightarrow> re list" where
  "times n r = replicate n r"

fun alts :: "re list \<Rightarrow> re" where
  "alts [] = Set []"
| "alts [r] = r"
| "alts (r # rs) = Alt r (alts rs)"

fun ignorecase :: "re \<Rightarrow> re" where
  "ignorecase (Lit c) = LitI c"
| "ignorecase (Seq r1 r2) = Seq (ignorecase r1) (ignorecase r2)"
| "ignorecase (Alt r1 r2) = Alt (ignorecase r1) (ignorecase r2)"
| "ignorecase (Star r) = Star (ignorecase r)"
| "ignorecase (LStar r) = LStar (ignorecase r)"
| "ignorecase (Opt r) = Opt (ignorecase r)"
| "ignorecase (Ahead r) = Ahead (ignorecase r)"
| "ignorecase r = r"

text \<open>
  \<open>re.search\<close>: the first match at the leftmost position that has one. The result is the
  text skipped before the match and the state at the end of the match. \<open>p\<close> is the
  character before \<open>s\<close> (\<open>None\<close> at the start of the text).
\<close>

fun shift :: "char \<Rightarrow> (string \<times> mstate) option \<Rightarrow> (string \<times> mstate) option" where
  "shift x None = None"
| "shift x (Some (pre, st)) = Some (x # pre, st)"

fun search_from :: "re \<Rightarrow> char option \<Rightarrow> string \<Rightarrow> (string \<times> mstate) option"
and search_at :: "mstate option \<Rightarrow> re \<Rightarrow> string \<Rightarrow> (string \<times> mstate) option" where
  "search_from r p s = search_at (first (ms r ([], None, None, p, s))) r s"
| "search_at (Some st) r s = Some ([], st)"
| "search_at None r [] = None"
| "search_at None r (x # xs) = shift x (search_from r (Some x) xs)"

text \<open>\<open>re.search(pattern, text)\<close> followed by \<open>match.group(1)\<close>; \<open>None\<close> when there is
  no match. Every pattern searched this way has its group on every path.\<close>

definition re_search :: "re \<Rightarrow> string \<Rightarrow> string option" where
  "re_search r s =
     (case search_from r None s of None \<Rightarrow> None
      | Some (pre, st) \<Rightarrow> Some (case group1 st of None \<Rightarrow> [] | Some g \<Rightarrow> g))"


subsection \<open>What a match consumes\<close>

declare ms.simps(8,9) [simp del]

lemma step1_consumes:
  "st' \<in> set (step1 P st) \<Longrightarrow> \<exists>u. rest st = u @ rest st'"
  by (induction P st rule: step1.induct) (auto split: if_splits)

lemma step1_matched:
  "st' \<in> set (step1 P st) \<Longrightarrow> rev (matched st') @ rest st' = rev (matched st) @ rest st"
  by (induction P st rule: step1.induct) (auto split: if_splits)

lemma ms_matched:
  "st' \<in> set (ms r st) \<Longrightarrow> rev (matched st') @ rest st' = rev (matched st) @ rest st"
proof (induction r st arbitrary: st' rule: ms.induct)
  case (1 st)
  then show ?case by simp
next
  case (2 c st)
  then show ?case by (simp add: step1_matched)
next
  case (3 c st)
  then show ?case by (simp add: step1_matched)
next
  case (4 cs st)
  then show ?case by (simp add: step1_matched)
next
  case (5 cs st)
  then show ?case by (simp add: step1_matched)
next
  case (6 r1 r2 st)
  from "6.prems" obtain st1 where a: "st1 \<in> set (ms r1 st)" and b: "st' \<in> set (ms r2 st1)"
    by auto
  from "6.IH"(1) [OF a] "6.IH"(2) [OF a b] show ?case by simp
next
  case (7 r1 r2 st)
  from "7.prems" have "st' \<in> set (ms r1 st) \<or> st' \<in> set (ms r2 st)" by simp
  then show ?case using "7.IH" by blast
next
  case (8 r st)
  show ?case
  proof (cases "st' = st")
    case True
    then show ?thesis by simp
  next
    case False
    with "8.prems" obtain st1 where a: "st1 \<in> set (ms r st)"
      and l: "length (rest st1) < length (rest st)" and b: "st' \<in> set (ms (Star r) st1)"
      by (auto simp: ms.simps(8) [of r st] split: if_splits)
    from "8.IH"(1) [OF a] "8.IH"(2) [OF a l b] show ?thesis by simp
  qed
next
  case (9 r st)
  show ?case
  proof (cases "st' = st")
    case True
    then show ?thesis by simp
  next
    case False
    with "9.prems" obtain st1 where a: "st1 \<in> set (ms r st)"
      and l: "length (rest st1) < length (rest st)" and b: "st' \<in> set (ms (LStar r) st1)"
      by (auto simp: ms.simps(9) [of r st] split: if_splits)
    from "9.IH"(1) [OF a] "9.IH"(2) [OF a l b] show ?thesis by simp
  qed
next
  case (10 r st)
  from "10.prems" have "st' \<in> set (ms r st) \<or> st' = st" by auto
  then show ?case using "10.IH" by blast
next
  case (11 m g a p s)
  then show ?case by simp
next
  case (12 m g a p s)
  then show ?case by simp
next
  case (13 m g a p s)
  then show ?case by (simp split: if_splits)
next
  case (14 m g a p s)
  then show ?case by (simp split: if_splits)
next
  case (15 r st)
  then show ?case by (simp split: if_splits)
qed

lemma first_Some_mem: "first xs = Some x \<Longrightarrow> x \<in> set xs"
  by (cases xs) auto

lemma search_from_splits:
  "search_from r p s = Some (pre, st) \<Longrightarrow> s = pre @ rev (matched st) @ rest st"
  "search_at start r s = Some (pre, st) \<Longrightarrow>
     (case start of None \<Rightarrow> True | Some st0 \<Rightarrow> s = rev (matched st0) @ rest st0) \<Longrightarrow>
     s = pre @ rev (matched st) @ rest st"
proof (induction r p s and start r s arbitrary: pre st and pre st rule: search_from_search_at.induct)
  case (1 r p s)
  show ?case
  proof (rule "1.IH")
    show "search_at (first (ms r ([], None, None, p, s))) r s = Some (pre, st)"
      using "1.prems" by simp
    show "case first (ms r ([], None, None, p, s)) of None \<Rightarrow> True
          | Some st0 \<Rightarrow> s = rev (matched st0) @ rest st0"
      using ms_matched [of _ r "([], None, None, p, s)"]
      by (auto split: option.splits dest!: first_Some_mem)
  qed
next
  case (4 r x xs)
  from "4.prems"(1) obtain pre' where a: "search_from r (Some x) xs = Some (pre', st)"
    and b: "pre = x # pre'"
    by (cases "search_from r (Some x) xs") auto
  from "4.IH" [OF a] b show ?case by simp
qed auto

text \<open>
  The scan behind \<open>re.sub\<close>, \<open>re.findall\<close> and \<open>re.split\<close>: the successive matches, each
  searched from the end of the one before. The result lists, for every match, the text
  between the previous match and this one with the group of this one, and then the text
  after the last match. After an empty match the scan moves on by one character.
\<close>

fun add_match :: "string \<times> string option \<Rightarrow> (string \<times> string option) list \<times> string \<Rightarrow>
    (string \<times> string option) list \<times> string" where
  "add_match x (xs, t) = (x # xs, t)"

fun push_char :: "char \<Rightarrow> (string \<times> string option) list \<times> string \<Rightarrow>
    (string \<times> string option) list \<times> string" where
  "push_char c ([], t) = ([], c # t)"
| "push_char c ((pre, g) # xs, t) = ((c # pre, g) # xs, t)"

function re_scan :: "re \<Rightarrow> char option \<Rightarrow> string \<Rightarrow> (string \<times> string option) list \<times> string" where
  "re_scan r p s =
     (case search_from r p s of
        None \<Rightarrow> ([], s)
      | Some (pre, st) \<Rightarrow>
          (if matched st \<noteq> [] then add_match (pre, group1 st) (re_scan r (before st) (rest st))
           else (case rest st of
                   [] \<Rightarrow> ([(pre, group1 st)], [])
                 | x # xs \<Rightarrow> add_match (pre, group1 st) (push_char x (re_scan r (Some x) xs)))))"
  by pat_completeness auto
termination
proof (relation "measure (\<lambda>(r, p, s). length s)")
  show "wf (measure (\<lambda>(r, p, s). length s))" by simp
next
  fix r p s x2 pre st
  assume a: "search_from r p s = Some x2" "(pre, st) = x2" and b: "matched st \<noteq> []"
  from a have "s = pre @ rev (matched st) @ rest st"
    using search_from_splits(1) [of r p s pre st] by simp
  then have "length s = length pre + length (matched st) + length (rest st)"
    by (metis length_append length_rev add.assoc)
  with b show "((r, before st, rest st), r, p, s) \<in> measure (\<lambda>(r, p, s). length s)"
    by (cases "matched st") auto
next
  fix r p s x2 pre st x xs
  assume a: "search_from r p s = Some x2" "(pre, st) = x2" and c: "rest st = x # xs"
  from a have "s = pre @ rev (matched st) @ rest st"
    using search_from_splits(1) [of r p s pre st] by simp
  then have "length s = length pre + length (matched st) + length (rest st)"
    by (metis length_append length_rev add.assoc)
  with c show "((r, Some x, xs), r, p, s) \<in> measure (\<lambda>(r, p, s). length s)"
    by auto
qed

declare re_scan.simps [simp del]

text \<open>\<open>re.sub(pattern, repl, text)\<close>, with the replacement given as a function of the
  group; \<open>re.findall\<close> for a pattern with one group; \<open>re.split\<close> for a pattern with no
  group.\<close>

definition re_sub :: "re \<Rightarrow> (string option \<Rightarrow> string) \<Rightarrow> string \<Rightarrow> string" where
  "re_sub r repl s =
     (case re_scan r None s of (xs, t) \<Rightarrow> concat (map (\<lambda>(pre, g). pre @ repl g) xs) @ t)"

definition re_findall :: "re \<Rightarrow> string \<Rightarrow> string list" where
  "re_findall r s =
     (case re_scan r None s of (xs, t) \<Rightarrow>
        map (\<lambda>(pre, g). case g of None \<Rightarrow> [] | Some x \<Rightarrow> x) xs)"

definition re_split :: "re \<Rightarrow> string \<Rightarrow> string list" where
  "re_split r s = (case re_scan r None s of (xs, t) \<Rightarrow> map fst xs @ [t])"


section \<open>text\_processor.py\<close>

text \<open>The abbreviation table and the section headers of \<open>TextProcessor.__init__\<close>.\<close>

definition medical_abbreviations :: "(string \<times> string) list" where
  "medical_abbreviations =
    [(''pt'', ''patient''), (''pts'', ''patients''), (''hx'', ''history''),
     (''dx'', ''diagnosis''), (''tx'', ''treatment''), (''rx'', ''prescription''),
     (''sx'', ''symptoms''), (''f/u'', ''follow-up''), (''w/'', ''with''),
     (''w/o'', ''without''), (''c/o'', ''complains of''), (''r/o'', ''rule out''),
     (''sob'', ''shortness of breath''), (''cp'', ''chest pain''), (''bp'', ''blood pressure''),
     (''hr'', ''heart rate''), (''rr'', ''respiratory rate''), (''temp'', ''temperature''),
     (''wbc'', ''white blood cell count''), (''rbc'', ''red blood cell count''),
     (''hgb'', ''hemoglobin''), (''hct'', ''hematocrit''), (''bun'', ''blood urea nitrogen''),
     (''cr'', ''creatinine''), (''na'', ''sodium''), (''k'', ''potassium''), (''cl'', ''chloride''),
     (''co2'', ''carbon dioxide''), (''mg'', ''magnesium''), (''po'', ''by mouth''),
     (''iv'', ''intravenous''), (''im'', ''intramuscular''), (''bid'', ''twice daily''),
     (''tid'', ''three times daily''), (''qid'', ''four times daily''), (''qd'', ''once daily''),
     (''prn'', ''as needed''), (''hs'', ''at bedtime''), (''ac'', ''before meals''),
     (''pc'', ''after meals'')]"


subsection \<open>\<open>clean_text\<close>\<close>

text \<open>\<open>_expand_abbreviations\<close>: each whitespace-delimited word is lower-cased and stripped
  of punctuation; if that is a key of the table, the word becomes the expansion followed
  by all punctuation characters of the word.\<close>

definition is_punct :: "char \<Rightarrow> bool" where
  "is_punct c = (c \<in> set punctuation)"

definition expand_word :: "string \<Rightarrow> string" where
  "expand_word w =
     (case map_of medical_abbreviations (strip_with is_punct (lower w)) of
        Some e \<Rightarrow> e @ filter is_punct w
      | None \<Rightarrow> w)"

definition expand_abbreviations :: "string \<Rightarrow> string" where
  "expand_abbreviations s = join '' '' (map expand_word (split_ws s))"

text \<open>\<open>_clean_punctuation\<close>: \<open>\s*([,.;:!?])\s*\<close> becomes the mark and one space,
  \<open>([,.;:!?]){2,}\<close> becomes its last mark, and every piece between periods is stripped,
  ended with a period unless it ends in \<open>.\<close>, \<open>!\<close> or \<open>?\<close>, and dropped when empty.\<close>

definition marks :: re where
  "marks = Set [Chars '',.;:!?'']"

definition re_mark_spacing :: re where
  "re_mark_spacing = seqs [Star (Set [Space]), Grp marks, Star (Set [Space])]"

definition re_mark_run :: re where
  "re_mark_run = seqs [Grp marks, Grp marks, Star (Grp marks)]"

definition group_text :: "string option \<Rightarrow> string" where
  "group_text g = (case g of None \<Rightarrow> [] | Some x \<Rightarrow> x)"

definition end_sentence :: "string \<Rightarrow> string" where
  "end_sentence s =
     (if strip s \<noteq> [] \<and> last (strip s) \<notin> set ''.!?'' then strip s @ ''.'' else strip s)"

definition clean_punctuation :: "string \<Rightarrow> string" where
  "clean_punctuation s =
     join '' '' (filter (\<lambda>x. x \<noteq> [])
       (map end_sentence
         (split_char CHR ''.''
           (re_sub re_mark_run group_text
             (re_sub re_mark_spacing (\<lambda>g. group_text g @ '' '') s)))))"

text \<open>\<open>_remove_phi_patterns\<close>: \<open>\b\d{3}-\d{2}-\d{4}\b\<close>, \<open>\b\d{3}[-.]?\d{3}[-.]?\d{4}\b\<close>,
  \<open>\b\d{1,2}/\d{1,2}/\d{4}\b\<close> and, ignoring case, \<open>\bMRN:?\s*\d+\b\<close>, in this order.\<close>

definition digit :: re where
  "digit = Set [Digit]"

definition re_ssn :: re where
  "re_ssn = seqs ([Bnd] @ times 3 digit @ [Lit CHR ''-''] @ times 2 digit @ [Lit CHR ''-'']
                  @ times 4 digit @ [Bnd])"

definition re_phone :: re where
  "re_phone = seqs ([Bnd] @ times 3 digit @ [Opt (Set [Chars ''-.''])] @ times 3 digit
                    @ [Opt (Set [Chars ''-.''])] @ times 4 digit @ [Bnd])"

definition re_date :: re where
  "re_date = seqs ([Bnd, digit, Opt digit, Lit CHR ''/'', digit, Opt digit, Lit CHR ''/'']
                   @ times 4 digit @ [Bnd])"

definition re_mrn :: re where
  "re_mrn = ignorecase (seqs ([Bnd] @ lit ''MRN'' @
                              [Opt (Lit CHR '':''), Star (Set [Space]), Plus digit, Bnd]))"

definition remove_phi_patterns :: "string \<Rightarrow> string" where
  "remove_phi_patterns s =
     re_sub re_mrn (\<lambda>g. ''[MRN]'')
       (re_sub re_date (\<lambda>g. ''[DATE]'')
         (re_sub re_phone (\<lambda>g. ''[PHONE]'')
           (re_sub re_ssn (\<lambda>g. ''[SSN]'') s)))"

text \<open>\<open>clean_text\<close>: \<open>\s+\<close> becomes one space in the stripped text, the characters
  outside \<open>[\w\s.,;:!?\-()/]\<close> are removed, then the three passes above.\<close>

definition re_spaces :: re where
  "re_spaces = run_of [Space]"

definition re_artifact :: re where
  "re_artifact = seqs [NSet [Word, Space, Chars ''.,;:!?-()/'']]"

definition clean_text :: "string \<Rightarrow> string" where
  "clean_text s =
     (if s = [] then []
      else remove_phi_patterns (clean_punctuation (expand_abbreviations
             (re_sub re_artifact (\<lambda>g. []) (re_sub re_spaces (\<lambda>g. '' '') (strip s))))))"

subsection \<open>\<open>extract_sections\<close>\<close>






subsection \<open>\<open>extract_key_information\<close>\<close>

record extracted_info =
  medications :: "string list"
  procedures :: "string list"
  diagnoses :: "string list"
  vital_signs :: "(string \<times> string) list"
  recommendations :: "string list"

text \<open>The four medication patterns (\<open>re.IGNORECASE\<close>): \<open>\b(\w+)\s+\d+\s*mg\b\<close>,
  \<open>\b(\w+)\s+\d+\s*mcg\b\<close>, \<open>\b(\w+)\s+tablet\b\<close>, \<open>\b(\w+)\s+capsule\b\<close>.\<close>

definition dose_pattern :: "string \<Rightarrow> re" where
  "dose_pattern unit =
     ignorecase (seqs ([Bnd, Grp (Plus (Set [Word])), Plus (Set [Space]), Plus digit,
                        Star (Set [Space])] @ lit unit @ [Bnd]))"

definition form_pattern :: "string \<Rightarrow> re" where
  "form_pattern form =
     ignorecase (seqs ([Bnd, Grp (Plus (Set [Word])), Plus (Set [Space])] @ lit form @ [Bnd]))"

definition med_patterns :: "re list" where
  "med_patterns = [dose_pattern ''mg'', dose_pattern ''mcg'',
                   form_pattern ''tablet'', form_pattern ''capsule'']"

definition procedure_keywords :: "string list" where
  "procedure_keywords =
    [''catheterization'', ''angioplasty'', ''surgery'', ''biopsy'', ''endoscopy'',
     ''bronchoscopy'', ''colonoscopy'', ''echocardiogram'', ''CT scan'', ''MRI'',
     ''X-ray'', ''ultrasound'', ''blood transfusion'', ''dialysis'']"

text \<open>The vital-sign patterns, searched in the lower-cased text with no flag:
  \<open>bp:?\s*(\d+/\d+)\<close>, \<open>hr:?\s*(\d+)\<close>, \<open>temp:?\s*(\d+\.?\d*)\<close>, \<open>rr:?\s*(\d+)\<close>.\<close>

definition vital_patterns :: "(string \<times> re) list" where
  "vital_patterns =
    [(''blood_pressure'', seqs (lit ''bp'' @ [Opt (Lit CHR '':''), Star (Set [Space]),
        Grp (seqs [Plus digit, Lit CHR ''/'', Plus digit])])),
     (''heart_rate'', seqs (lit ''hr'' @ [Opt (Lit CHR '':''), Star (Set [Space]),
        Grp (Plus digit)])),
     (''temperature'', seqs (lit ''temp'' @ [Opt (Lit CHR '':''), Star (Set [Space]),
        Grp (seqs [Plus digit, Opt (Lit CHR ''.''), Star digit])])),
     (''respiratory_rate'', seqs (lit ''rr'' @ [Opt (Lit CHR '':''), Star (Set [Space]),
        Grp (Plus digit)]))]"

fun vitals_of :: "(string \<times> re) list \<Rightarrow> string \<Rightarrow> (string \<times> string) list" where
  "vitals_of [] t = []"
| "vitals_of ((vital, pat) # ps) t =
     (case re_search pat t of
        None \<Rightarrow> vitals_of ps t
      | Some v \<Rightarrow> (vital, v) # vitals_of ps t)"

text \<open>
  \<open>list(set(xs))\<close> lists the elements of \<open>xs\<close> once each, in an order that Python does
  not fix. The order is a parameter \<open>ord\<close> of the model; \<open>set_order ord\<close> says that
  \<open>ord\<close> is such a listing.
\<close>

definition set_order :: "(string list \<Rightarrow> string list) \<Rightarrow> bool" where
  "set_order ord = (\<forall>xs. distinct (ord xs) \<and> set (ord xs) = set xs)"

definition found_medications :: "string \<Rightarrow> string list" where
  "found_medications s = concat (map (\<lambda>pat. map title (re_findall pat s)) med_patterns)"

definition found_procedures :: "string \<Rightarrow> string list" where
  "found_procedures s =
     map title (filter (\<lambda>keyword. contains (lower keyword) (lower s)) procedure_keywords)"

definition extract_key_information :: "(string list \<Rightarrow> string list) \<Rightarrow> string \<Rightarrow> extracted_info" where
  "extract_key_information ord s =
     \<lparr> medications = ord (found_medications s),
       procedures = ord (found_procedures s),
       diagnoses = [],
       vital_signs = vitals_of vital_patterns (lower s),
       recommendations = [] \<rparr>"


section \<open>summarizer.py\<close>



subsection \<open>The pattern lookups\<close>













subsection \<open>Length control\<close>








subsection \<open>\<open>generate_doctor_summary\<close>\<close>







subsection \<open>\<open>generate_patient_summary\<close>\<close>














section \<open>Evaluating the matcher\<close>

text \<open>
  Derived equations for the first match of a sequence, one per kind of its head, so that a
  search on a given text is computed by rewriting, and the character classes on the bits
  of a character.
\<close>

fun orelse :: "'a option \<Rightarrow> 'a option \<Rightarrow> 'a option" where
  "orelse (Some x) y = Some x"
| "orelse None y = y"

lemma orelse_None_right: "orelse x None = x"
  by (cases x) simp_all

lemma orelse_cong: "a = a' \<Longrightarrow> orelse a b = orelse a' b"
  by simp

lemma first_append: "first (xs @ ys) = orelse (first xs) (first ys)"
  by (cases xs) simp_all

lemma first_None_iff: "first xs = None \<longleftrightarrow> xs = []"
  by (cases xs) simp_all

lemma concat_map_concat:
  "concat (map f (concat (map g xs))) = concat (map (\<lambda>x. concat (map f (g x))) xs)"
  by (induction xs) simp_all

lemma ms_Seq_assoc: "ms (Seq (Seq r1 r2) r3) st = ms (Seq r1 (Seq r2 r3)) st"
proof -
  have "ms (Seq r2 r3) = (\<lambda>x. concat (map (ms r3) (ms r2 x)))"
    by (rule ext) simp
  then show ?thesis by (simp add: concat_map_concat)
qed

lemma concat_map_single: "concat (map (\<lambda>x. [x]) xs) = xs"
  by (induction xs) simp_all

lemma ms_Seq_Eps: "ms (Seq r Eps) st = ms r st"
proof -
  have "ms Eps = (\<lambda>x. [x])" by (rule ext) simp
  then show ?thesis by (simp add: concat_map_single)
qed

definition atom :: "re \<Rightarrow> (char \<Rightarrow> bool) \<Rightarrow> bool" where
  "atom r P = (\<forall>st. ms r st = step1 P st)"

lemma atom_Lit: "atom (Lit c) (\<lambda>x. x = c)"
  and atom_LitI: "atom (LitI c) (\<lambda>x. lower_char x = lower_char c)"
  and atom_Set: "atom (Set cs) (cls_any cs)"
  and atom_NSet: "atom (NSet cs) (\<lambda>x. \<not> cls_any cs x)"
  by (simp_all add: atom_def)

lemma ms_Star_atom:
  assumes "atom r P"
  shows "ms (Star r) (m, g, a, p, []) = [(m, g, a, p, [])]"
    and "ms (Star r) (m, g, a, p, x # xs) =
      (if P x then ms (Star r) (x # m, g, map_option (Cons x) a, Some x, xs) @ [(m, g, a, p, x # xs)]
       else [(m, g, a, p, x # xs)])"
  using assms by (simp_all add: atom_def ms.simps(8))

lemma ms_LStar_atom:
  assumes "atom r P"
  shows "ms (LStar r) (m, g, a, p, []) = [(m, g, a, p, [])]"
    and "ms (LStar r) (m, g, a, p, x # xs) =
      (if P x then (m, g, a, p, x # xs) # ms (LStar r) (x # m, g, map_option (Cons x) a, Some x, xs)
       else [(m, g, a, p, x # xs)])"
  using assms by (simp_all add: atom_def ms.simps(9))

lemma run_atom:
  assumes "atom r P"
  shows "first (ms (Seq r k) (m, g, a, p, [])) = None"
    and "first (ms (Seq r k) (m, g, a, p, x # xs)) =
      (if P x then first (ms k (x # m, g, map_option (Cons x) a, Some x, xs)) else None)"
  using assms by (simp_all add: atom_def)

lemma run_Star:
  assumes "atom r P"
  shows "first (ms (Seq (Star r) k) (m, g, a, p, [])) = first (ms k (m, g, a, p, []))"
    and "first (ms (Seq (Star r) k) (m, g, a, p, x # xs)) =
      (if P x then orelse (first (ms (Seq (Star r) k) (x # m, g, map_option (Cons x) a, Some x, xs)))
                          (first (ms k (m, g, a, p, x # xs)))
       else first (ms k (m, g, a, p, x # xs)))"
  by (simp_all add: ms_Star_atom [OF assms] first_append)

lemma run_LStar:
  assumes "atom r P"
  shows "first (ms (Seq (LStar r) k) (m, g, a, p, [])) = first (ms k (m, g, a, p, []))"
    and "first (ms (Seq (LStar r) k) (m, g, a, p, x # xs)) =
      orelse (first (ms k (m, g, a, p, x # xs)))
        (if P x then first (ms (Seq (LStar r) k) (x # m, g, map_option (Cons x) a, Some x, xs))
         else None)"
  by (simp_all add: ms_LStar_atom [OF assms] first_append orelse_None_right)

lemma run_Opt:
  "first (ms (Seq (Opt r) k) st) = orelse (first (ms (Seq r k) st)) (first (ms k st))"
  by (simp add: first_append)

lemma run_Alt:
  "first (ms (Seq (Alt r1 r2) k) st) = orelse (first (ms (Seq r1 k) st)) (first (ms (Seq r2 k) st))"
  by (simp add: first_append)

lemma run_Seq: "first (ms (Seq (Seq r1 r2) k) st) = first (ms (Seq r1 (Seq r2 k)) st)"
  by (simp only: ms_Seq_assoc)

lemma run_Eps:
  "first (ms (Seq Eps k) st) = first (ms k st)"
  "first (ms Eps st) = Some st"
  by simp_all

lemma run_marks:
  "first (ms (Seq Open k) (m, g, a, p, s)) = first (ms k (m, g, Some [], p, s))"
  "first (ms (Seq Close k) (m, g, Some cs, p, s)) = first (ms k (m, Some (rev cs), None, p, s))"
  "first (ms (Seq Close k) (m, g, None, p, s)) = first (ms k (m, g, None, p, s))"
  by simp_all

lemma run_Bnd:
  "first (ms (Seq Bnd k) (m, g, a, p, s)) =
     (if word_before p \<noteq> word_after s then first (ms k (m, g, a, p, s)) else None)"
  by simp

lemma run_Eos:
  "first (ms (Seq Eos k) (m, g, a, p, [])) = first (ms k (m, g, a, p, []))"
  "first (ms (Seq Eos k) (m, g, a, p, x # xs)) =
     (if x = CHR 0x0A \<and> xs = [] then first (ms k (m, g, a, p, x # xs)) else None)"
  by simp_all

lemma run_Ahead:
  "first (ms (Seq (Ahead r) k) st) =
     (if first (ms (Seq r Eps) st) = None then None else first (ms k st))"
  by (simp only: ms_Seq_Eps first_None_iff) simp

lemmas run_atoms =
  run_atom [OF atom_Lit] run_atom [OF atom_LitI] run_atom [OF atom_Set] run_atom [OF atom_NSet]
  run_Star [OF atom_Lit] run_Star [OF atom_LitI] run_Star [OF atom_Set] run_Star [OF atom_NSet]
  run_LStar [OF atom_Lit] run_LStar [OF atom_LitI] run_LStar [OF atom_Set] run_LStar [OF atom_NSet]

lemma is_digit_bits:
  "is_digit (Char b0 b1 b2 b3 b4 b5 b6 b7) =
     (if b7 then False else (if b6 then False else (if b5 then (if b4 then (if b3 then (if b2
       then False else (\<not> b1)) else True) else False) else False)))"
  by (cases b0; cases b1; cases b2; cases b3; cases b4; cases b5; cases b6; cases b7;
      simp add: is_digit_def)

lemma is_upper_bits:
  "is_upper (Char b0 b1 b2 b3 b4 b5 b6 b7) =
     (if b7 then (if b6 then (if b5 then False else (if b4 then (if b2 then (if b1 then (\<not>
       b0) else True) else True) else True)) else False) else (if b6 then (if b5 then False
       else (if b4 then (if b3 then (if b2 then False else (if b1 then (\<not> b0) else True))
       else True) else (if b3 then True else (if b2 then True else (if b1 then True else
       b0))))) else False))"
  by (cases b0; cases b1; cases b2; cases b3; cases b4; cases b5; cases b6; cases b7;
      simp add: is_upper_def)

lemma is_lower_bits:
  "is_lower (Char b0 b1 b2 b3 b4 b5 b6 b7) =
     (if b7 then (if b6 then (if b5 then (if b4 then (if b3 then True else (if b2 then (if b1
       then (\<not> b0) else True) else True)) else True) else (if b4 then (if b3 then (if b2
       then (if b1 then b0 else False) else False) else False) else False)) else (if b5 then
       (if b4 then (if b3 then (if b2 then False else (if b1 then (\<not> b0) else False)) else
       (if b2 then (if b1 then False else b0) else False)) else (if b3 then (if b2 then False
       else (if b1 then (\<not> b0) else False)) else False)) else False)) else (if b6 then (if
       b5 then (if b4 then (if b3 then (if b2 then False else (if b1 then (\<not> b0) else
       True)) else True) else (if b3 then True else (if b2 then True else (if b1 then True else
       b0)))) else False) else False))"
  by (cases b0; cases b1; cases b2; cases b3; cases b4; cases b5; cases b6; cases b7;
      simp add: is_lower_def)

lemma is_space_bits:
  "is_space (Char b0 b1 b2 b3 b4 b5 b6 b7) =
     (if b7 then (if b6 then False else (if b5 then (if b4 then False else (if b3 then False
       else (if b2 then False else (if b1 then False else (\<not> b0))))) else (if b4 then
       False else (if b3 then False else (if b2 then (if b1 then False else b0) else False)))))
       else (if b6 then False else (if b5 then (if b4 then False else (if b3 then False else
       (if b2 then False else (if b1 then False else (\<not> b0))))) else (if b4 then (if b3
       then b2 else False) else (if b3 then (if b2 then (\<not> b1) else (if b1 then True else
       b0)) else False)))))"
  by (cases b0; cases b1; cases b2; cases b3; cases b4; cases b5; cases b6; cases b7;
      simp add: is_space_def)

lemma has_capital_bits:
  "has_capital (Char b0 b1 b2 b3 b4 b5 b6 b7) =
     (if b7 then (if b6 then (if b5 then (if b4 then (if b2 then (if b1 then (\<not> b0) else
       True) else True) else True) else False) else False) else (if b6 then (if b5 then (if b4
       then (if b3 then (if b2 then False else (if b1 then (\<not> b0) else True)) else True)
       else (if b3 then True else (if b2 then True else (if b1 then True else b0)))) else
       False) else False))"
  by (cases b0; cases b1; cases b2; cases b3; cases b4; cases b5; cases b6; cases b7;
      simp add: has_capital_def)

lemma is_word_bits:
  "is_word (Char b0 b1 b2 b3 b4 b5 b6 b7) =
     (if b7 then (if b6 then (if b4 then (if b3 then True else (if b2 then (if b1 then (\<not>
       b0) else True) else True)) else True) else (if b5 then (if b4 then (if b3 then (if b2
       then (if b1 then (\<not> b0) else True) else (if b1 then (\<not> b0) else b0)) else (if
       b2 then (if b1 then False else b0) else b1)) else (if b3 then (if b2 then False else (if
       b1 then (\<not> b0) else False)) else False)) else False)) else (if b6 then (if b5 then
       (if b4 then (if b3 then (if b2 then False else (if b1 then (\<not> b0) else True)) else
       True) else (if b3 then True else (if b2 then True else (if b1 then True else b0)))) else
       (if b4 then (if b3 then (if b2 then (if b1 then b0 else False) else (if b1 then (\<not>
       b0) else True)) else True) else (if b3 then True else (if b2 then True else (if b1 then
       True else b0))))) else (if b5 then (if b4 then (if b3 then (if b2 then False else
       (\<not> b1)) else True) else False) else False)))"
  by (cases b0; cases b1; cases b2; cases b3; cases b4; cases b5; cases b6; cases b7;
      simp add: is_word_def is_digit_def is_upper_def is_lower_def)

definition scan_cont :: "re \<Rightarrow> string \<Rightarrow> (string \<times> mstate) option \<Rightarrow> (string \<times> string option) list \<times> string" where
  "scan_cont r s found =
     (case found of
        None \<Rightarrow> ([], s)
      | Some (pre, st) \<Rightarrow>
          (if matched st \<noteq> [] then add_match (pre, group1 st) (re_scan r (before st) (rest st))
           else (case rest st of
                   [] \<Rightarrow> ([(pre, group1 st)], [])
                 | x # xs \<Rightarrow> add_match (pre, group1 st) (push_char x (re_scan r (Some x) xs)))))"

lemma re_scan_cont: "re_scan r p s = scan_cont r s (search_from r p s)"
  by (subst re_scan.simps) (simp add: scan_cont_def)

lemma scan_cont_simps:
  "scan_cont r s None = ([], s)"
  "scan_cont r s (Some (pre, (y # m, g, a, p, s'))) = add_match (pre, g) (re_scan r p s')"
  "scan_cont r s (Some (pre, ([], g, a, p, []))) = ([(pre, g)], [])"
  "scan_cont r s (Some (pre, ([], g, a, p, x # xs))) =
     add_match (pre, g) (push_char x (re_scan r (Some x) xs))"
  by (simp_all add: scan_cont_def)

lemma times_simps:
  "times 2 r = [r, r]" "times 3 r = [r, r, r]" "times 4 r = [r, r, r, r]"
  by (simp_all add: times_def numeral_eq_Suc)

lemmas ev_logic = simp_thms if_True if_False de_Morgan_disj de_Morgan_conj
  char.inject list.simps option.simps prod.simps fst_conv snd_conv
  append.simps concat.simps rev.simps filter.simps dropWhile.simps last.simps
  option.map list.set insert_iff empty_iff map_of.simps fun_upd_apply

lemmas ev_chars = is_digit_bits is_upper_bits is_lower_bits is_space_bits is_word_bits
  has_capital_bits
  lower_char.simps upper_char.simps lower_def title_def title_from.simps
  strip_with_def strip_def punctuation_def is_punct_def
  words_from.simps split_ws_def pieces_from.simps split_char_def join.simps
  starts_with.simps contains.simps ends_with_char.simps

lemmas ev_re = run_atoms run_Opt run_Alt run_Seq run_Eps run_marks run_Bnd run_Eos run_Ahead
  orelse.simps search_from.simps search_at.simps shift.simps
  word_before.simps word_after.simps cls_mem.simps cls_any.simps
  seqs.simps lit_def Plus_def Grp_def run_of_def times_simps alts.simps ignorecase.simps
  matched.simps group1.simps before.simps rest.simps
  re_scan_cont scan_cont_simps add_match.simps push_char.simps
  re_search_def re_sub_def re_findall_def re_split_def group_text_def

lemmas ev_tp = medical_abbreviations_def expand_word_def expand_abbreviations_def
  marks_def re_mark_spacing_def re_mark_run_def end_sentence_def clean_punctuation_def
  digit_def re_ssn_def re_phone_def re_date_def re_mrn_def remove_phi_patterns_def
  re_spaces_def re_artifact_def clean_text_def

lemmas ev_cong = if_weak_cong orelse_cong



declare ms.simps [simp del] search_from.simps [simp del]

section \<open>Properties\<close>

text \<open>
  C9. For every input text, the \<open>diagnoses\<close> and \<open>recommendations\<close> fields of the
  information returned by \<open>extract_key_information\<close> are empty: no extraction pass
  fills them.
\<close>

theorem C9_reserved_fields_empty:
  "diagnoses (extract_key_information ord s) = [] \<and>
   recommendations (extract_key_information ord s) = []"
  by (simp add: extract_key_information_def)

subsection \<open>Normalization on given texts\<close>

lemma clean_text_ssn: "clean_text ''SSN 123-45-6789'' = ''SSN [SSN].''"
  by (simp only: ev_logic ev_chars ev_re ev_tp cong: ev_cong)

lemma clean_text_mrn: "clean_text ''MRN: 12345'' = ''[MRN].''"
  by (simp only: ev_logic ev_chars ev_re ev_tp cong: ev_cong)

lemma clean_text_date: "clean_text ''03/14/2024'' = ''[DATE].''"
  by (simp only: ev_logic ev_chars ev_re ev_tp cong: ev_cong)

lemma clean_text_mrn_long: "clean_text ''MRN: 1234567890'' = ''MRN: [PHONE].''"
  by (simp only: ev_logic ev_chars ev_re ev_tp cong: ev_cong)

lemma clean_text_ssn_long: "clean_text ''SSN 123-45-67890'' = ''SSN 123-45-67890.''"
  by (simp only: ev_logic ev_chars ev_re ev_tp cong: ev_cong)

lemma clean_text_date_glued: "clean_text ''DOB03/14/2024'' = ''DOB03/14/2024.''"
  by (simp only: ev_logic ev_chars ev_re ev_tp cong: ev_cong)

text \<open>
  C6, as stated, speaks of any text that contains one of the three samples. It fails for
  \<open>MRN: 1234567890\<close>, which contains \<open>MRN: 12345\<close>: the phone pass, which runs before the
  record-number pass, replaces the ten digits, and the result has no \<open>[MRN]\<close>.
\<close>

theorem C6_containing_counterexample:
  "contains ''MRN: 12345'' ''MRN: 1234567890'' \<and>
   \<not> contains ''[MRN]'' (clean_text ''MRN: 1234567890'')"
  by (simp only: clean_text_mrn_long ev_logic ev_chars)

text \<open>
  C6, amended. \<open>clean_text\<close> of the text \<open>SSN 123-45-6789\<close> is \<open>SSN [SSN].\<close>, of the text
  \<open>MRN: 12345\<close> is \<open>[MRN].\<close>, and of the text \<open>03/14/2024\<close> is \<open>[DATE].\<close>: each contains its
  token. A longer text that contains a sample need not: the sample is replaced only where
  it stands between word boundaries and no earlier pass has replaced its digits. So
  \<open>MRN: 1234567890\<close> becomes \<open>MRN: [PHONE].\<close>, and \<open>SSN 123-45-67890\<close> and \<open>DOB03/14/2024\<close>
  are returned with nothing replaced.
\<close>

theorem C6_phi_redaction_samples:
  "clean_text ''SSN 123-45-6789'' = ''SSN [SSN].'' \<and>
   contains ''[SSN]'' (clean_text ''SSN 123-45-6789'') \<and>
   clean_text ''MRN: 12345'' = ''[MRN].'' \<and>
   contains ''[MRN]'' (clean_text ''MRN: 12345'') \<and>
   clean_text ''03/14/2024'' = ''[DATE].'' \<and>
   contains ''[DATE]'' (clean_text ''03/14/2024'') \<and>
   clean_text ''MRN: 1234567890'' = ''MRN: [PHONE].'' \<and>
   clean_text ''SSN 123-45-67890'' = ''SSN 123-45-67890.'' \<and>
   clean_text ''DOB03/14/2024'' = ''DOB03/14/2024.''"
  by (simp only: clean_text_ssn clean_text_mrn clean_text_date clean_text_mrn_long
      clean_text_ssn_long clean_text_date_glued ev_logic ev_chars)

text \<open>A whole-word occurrence of \<open>w\<close>: a match of \<open>\bw\b\<close>.\<close>

definition contains_word :: "string \<Rightarrow> string \<Rightarrow> bool" where
  "contains_word w s = (search_from (seqs ([Bnd] @ lit w @ [Bnd])) None s \<noteq> None)"

lemma clean_text_pt: "clean_text ''pt c/o cp'' = ''patient complains of/ chest pain.''"
  by (simp only: ev_logic ev_chars ev_re ev_tp cong: ev_cong)

text \<open>
  C7. \<open>clean_text\<close> of \<open>pt c/o cp\<close> contains \<open>patient\<close>, \<open>complains of\<close> and
  \<open>chest pain\<close>, each as whole words.
\<close>

theorem C7_abbreviations_expanded:
  "contains_word ''patient'' (clean_text ''pt c/o cp'') \<and>
   contains_word ''complains of'' (clean_text ''pt c/o cp'') \<and>
   contains_word ''chest pain'' (clean_text ''pt c/o cp'')"
  by (simp only: clean_text_pt contains_word_def ev_logic ev_chars ev_re cong: ev_cong)


subsection \<open>Medications and procedures are listed once\<close>

lemmas ev_ex = digit_def med_patterns_def dose_pattern_def form_pattern_def found_medications_def

lemma found_medications_aspirin:
  "found_medications ''Aspirin 81mg daily'' = [''Aspirin'']"
  by (simp only: ev_logic ev_chars ev_re ev_ex cong: ev_cong)

lemma found_medications_aspirin_twice:
  "found_medications ''Aspirin 81mg daily. Continue Aspirin 81mg daily'' = [''Aspirin'', ''Aspirin'']"
  by (simp only: ev_logic ev_chars ev_re ev_ex cong: ev_cong)

lemma count_list_distinct: "distinct ys \<Longrightarrow> x \<in> set ys \<Longrightarrow> count_list ys x = 1"
  by (induction ys) auto

text \<open>
  C8. For every input text, the medications and the procedures returned by
  \<open>extract_key_information\<close> contain no duplicates; in particular a text with
  \<open>Aspirin 81mg daily\<close>, mentioned once or twice, yields \<open>Aspirin\<close> exactly once.
  The order of \<open>list(set(...))\<close> is any listing \<open>ord\<close> of a set.
\<close>

theorem C8_no_duplicates:
  assumes "set_order ord"
  shows "distinct (medications (extract_key_information ord s)) \<and>
         distinct (procedures (extract_key_information ord s)) \<and>
         count_list (medications (extract_key_information ord ''Aspirin 81mg daily'')) ''Aspirin'' = 1 \<and>
         count_list (medications (extract_key_information ord
            ''Aspirin 81mg daily. Continue Aspirin 81mg daily'')) ''Aspirin'' = 1"
proof -
  from assms have d: "\<And>xs. distinct (ord xs)" and e: "\<And>xs. set (ord xs) = set xs"
    by (simp_all add: set_order_def)
  have "count_list (ord [''Aspirin'']) ''Aspirin'' = 1"
    by (rule count_list_distinct) (simp_all add: d e)
  moreover have "count_list (ord [''Aspirin'', ''Aspirin'']) ''Aspirin'' = 1"
    by (rule count_list_distinct) (simp_all add: d e)
  ultimately show ?thesis
    by (simp add: extract_key_information_def d found_medications_aspirin
        found_medications_aspirin_twice)
qed

lemma set_order_remdups: "set_order remdups"
  by (simp add: set_order_def)

theorem C8_no_duplicates_witness:
  "set_order remdups \<and>
   distinct (medications (extract_key_information remdups ''Aspirin 81mg daily'')) \<and>
   count_list (medications (extract_key_information remdups
      ''Aspirin 81mg daily. Continue Aspirin 81mg daily'')) ''Aspirin'' = 1"
  using C8_no_duplicates [OF set_order_remdups, of "''Aspirin 81mg daily''"] set_order_remdups
  by simp


subsection \<open>Splitting at runs of sentence marks\<close>









subsection \<open>Counting pieces\<close>








subsection \<open>Sentence counts\<close>



























subsection \<open>The end-to-end sample\<close>

























subsection \<open>Blank text\<close>


fun cls_nonspace :: "cls \<Rightarrow> bool" where
  "cls_nonspace Digit = True"
| "cls_nonspace Word = True"
| "cls_nonspace Space = False"
| "cls_nonspace (Chars cs) = list_all (\<lambda>c. \<not> is_space c) cs"

text \<open>A sufficient condition for a pattern to have no match in blank text.\<close>

fun blank_fail :: "re \<Rightarrow> bool" where
  "blank_fail (Lit c) = (\<not> is_space c)"
| "blank_fail (LitI c) = (\<not> is_space c)"
| "blank_fail (Set cs) = list_all cls_nonspace cs"
| "blank_fail (Seq r1 r2) = (blank_fail r1 \<or> blank_fail r2)"
| "blank_fail (Alt r1 r2) = (blank_fail r1 \<and> blank_fail r2)"
| "blank_fail Bnd = True"
| "blank_fail (Ahead r) = blank_fail r"
| "blank_fail r = False"














lemma blank_fail_ignorecase: "blank_fail r \<Longrightarrow> blank_fail (ignorecase r)"
  by (induction r rule: ignorecase.induct) auto





subsection \<open>The summaries of a blank text\<close>
























end
